theory Spec2Isabelle
  imports Complex_Main
begin

section \<open>The CloudFormation resource provider engine\<close>

text \<open>
  A shallow embedding of \<^verbatim>\<open>localstack/services/cloudformation/resource_provider.py\<close>:
  the state model, the request model, the private registry, the request translator
  \<^verbatim>\<open>convert_payload\<close> and the executor's \<^verbatim>\<open>execute_action\<close> and
  \<^verbatim>\<open>deploy_loop\<close>.

  The type variables are: \<open>'p\<close>, the resource's property set (\<^verbatim>\<open>Properties\<close>);
  \<open>'v\<close>, the values stored in a callback context; \<open>'e\<close>, the state of the world the
  providers act on (the emulated cloud), which the engine never inspects.
\<close>

subsection \<open>State model\<close>

datatype OperationStatus = PENDING | IN_PROGRESS | SUCCESS | FAILED

text \<open>A Python \<^verbatim>\<open>dict\<close> with string keys, as a map; \<^verbatim>\<open>{**a, **b}\<close> is \<open>a ++ b\<close>.\<close>

type_synonym 'v dict = "string \<rightharpoonup> 'v"

record ('p, 'v) ProgressEvent =
  status :: OperationStatus
  resource_model :: 'p
  message :: string
  result :: "string option"
  error_code :: "string option"
  custom_context :: "'v dict"

subsection \<open>The raw payload\<close>

text \<open>
  Payloads and callback contexts are mutable Python objects that the code copies, shares
  and rebinds, so they live in a store and are named by their address. The other parts
  of a payload are never written by the engine and are held by value.
\<close>

type_synonym addr = nat

record Credentials =
  accessKeyId :: string
  secretAccessKey :: string
  sessionToken :: string

record 'p ResourceProviderPayloadRequestData =
  logicalResourceId :: string
  resourceProperties :: 'p
  previousResourceProperties :: "'p option"
  callerCredentials :: Credentials
  providerCredentials :: Credentials
  systemTags :: "string dict"
  previousSystemTags :: "string dict"
  stackTags :: "string dict"
  previousStackTags :: "string dict"

record 'p ResourceProviderPayload =
  callbackContext :: addr
  stackId :: string
  requestData :: "'p ResourceProviderPayloadRequestData"
  resourceType :: string
  resourceTypeVersion :: string
  awsAccountId :: string
  bearerToken :: string
  region :: string
  action :: string

subsection \<open>Request model\<close>

text \<open>
  Modelled from the spec: \<^verbatim>\<open>connect_to\<close> of \<^verbatim>\<open>localstack.aws.connect\<close> is not
  among the sources. The spec has the translator resolve a scoped client context from the
  caller's credentials and the payload's region, opaque to the rest of the engine and
  built with no network call: the client factory is the value of the four arguments it
  was built from.
\<close>

datatype ServiceLevelClientFactory =
  ClientFactory (aws_access_key_id: string) (aws_session_token: string)
    (aws_secret_access_key: string) (client_region_name: string)

definition connect_to :: "string \<Rightarrow> string \<Rightarrow> string \<Rightarrow> string \<Rightarrow> ServiceLevelClientFactory" where
  "connect_to key_id session_token secret_key region_nm =
     ClientFactory key_id session_token secret_key region_nm"

datatype Logger = Logger string

text \<open>
  The field \<^verbatim>\<open>_original_payload\<close> is \<open>original_payload\<close> here; \<open>custom_context\<close>
  of a request is \<open>request_custom_context\<close>, a reference to the payload's callback
  context object.
\<close>

record 'p ResourceRequest =
  original_payload :: 'p
  aws_client_factory :: ServiceLevelClientFactory
  request_token :: string
  stack_name :: string
  stack_id :: string
  account_id :: string
  region_name :: string
  desired_state :: 'p
  logical_resource_id :: string
  logger :: Logger
  request_custom_context :: addr
  previous_state :: "'p option"
  previous_tags :: "string dict option"
  tags :: "string dict"

subsection \<open>Errors, providers and the world\<close>

text \<open>
  The exceptions the engine raises: \<^verbatim>\<open>NotImplementedError\<close> with its argument
  when it has one, \<^verbatim>\<open>TimeoutError\<close> with its message, the \<^verbatim>\<open>ValueError\<close> of
  \<^verbatim>\<open>time.sleep\<close>; \<open>ProviderError\<close> stands for any other exception a provider's code
  raises.
\<close>

datatype exc =
    NotImplementedError "string option"
  | TimeoutError string
  | ValueError string
  | ProviderError string

text \<open>
  A capability of a provider (\<^verbatim>\<open>create\<close>, \<^verbatim>\<open>update\<close>, \<^verbatim>\<open>delete\<close>) receives the
  request, reads the context objects the request refers to, acts on the world of the
  providers, and returns a progress event or raises. It reads the store and does not
  write it: a request is never mutated after its construction, and what a provider wants
  to carry to its next attempt goes into the \<^verbatim>\<open>custom_context\<close> of its event.
\<close>

type_synonym ('p, 'v, 'e) capability =
  "'p ResourceRequest \<Rightarrow> (addr \<Rightarrow> 'v dict) \<Rightarrow> 'e \<Rightarrow> (exc + ('p, 'v) ProgressEvent) \<times> 'e"

record ('p, 'v, 'e) ResourceProvider =
  TYPE_name :: "string option"
  create :: "('p, 'v, 'e) capability"
  update :: "('p, 'v, 'e) capability"
  delete :: "('p, 'v, 'e) capability"

text \<open>The base class: every capability raises \<^verbatim>\<open>NotImplementedError\<close>.\<close>

definition ResourceProvider_base :: "('p, 'v, 'e) ResourceProvider" where
  "ResourceProvider_base =
     \<lparr>TYPE_name = None,
      create = (\<lambda>request ds e. (Inl (NotImplementedError None), e)),
      update = (\<lambda>request ds e. (Inl (NotImplementedError None), e)),
      delete = (\<lambda>request ds e. (Inl (NotImplementedError None), e))\<rparr>"

text \<open>
  The calls the engine makes to the outside, in the order it makes them. An invocation
  of a capability is logged with the request, the content of the callback context the
  request refers to at that moment, and what the capability returned or raised.
\<close>

datatype capability_name = Create | Update | Delete

datatype ('p, 'v) effect =
    ConnectTo string string string string
  | Uuid4 string
  | GetLogger string
  | Instantiate "string option"
  | Invoke capability_name "'p ResourceRequest" "'v dict" "exc + ('p, 'v) ProgressEvent"
  | Sleep real

text \<open>
  The world: the module's private registry, the store of payload objects and of context
  objects with its allocator (every address below \<open>next_addr\<close> is in use), the values
  \<^verbatim>\<open>uuid.uuid4()\<close> returns call after call (they are random: any sequence of
  strings) with the number of calls made, the providers' world and the log of the outside
  calls.
\<close>

record ('p, 'v, 'e) world =
  PRIVATE_REGISTRY :: "string \<rightharpoonup> ('p, 'v, 'e) ResourceProvider"
  payloads :: "addr \<Rightarrow> 'p ResourceProviderPayload"
  dicts :: "addr \<Rightarrow> 'v dict"
  next_addr :: addr
  uuid4_values :: "nat \<Rightarrow> string"
  uuid4_calls :: nat
  env :: 'e
  trace :: "('p, 'v) effect list"

definition log_effect :: "('p, 'v) effect \<Rightarrow> ('p, 'v, 'e) world \<Rightarrow> ('p, 'v, 'e) world" where
  "log_effect x w = w\<lparr>trace := trace w @ [x]\<rparr>"

text \<open>
  \<^verbatim>\<open>register_resource_provider\<close>: a class with a non-empty \<^verbatim>\<open>TYPE\<close> is stored under
  it; the last registration of a name wins.
\<close>

definition register_resource_provider ::
  "('p, 'v, 'e) ResourceProvider \<Rightarrow> ('p, 'v, 'e) world \<Rightarrow> ('p, 'v, 'e) world" where
  "register_resource_provider cls w =
     (case TYPE_name cls of
        None \<Rightarrow> w
      | Some provider_type \<Rightarrow>
          if provider_type = [] then w
          else w\<lparr>PRIVATE_REGISTRY := (PRIVATE_REGISTRY w)(provider_type \<mapsto> cls)\<rparr>)"

subsection \<open>The request translator\<close>

definition uuid4 :: "('p, 'v, 'e) world \<Rightarrow> string \<times> ('p, 'v, 'e) world" where
  "uuid4 w =
     (let u = uuid4_values w (uuid4_calls w)
      in (u, log_effect (Uuid4 u) (w\<lparr>uuid4_calls := Suc (uuid4_calls w)\<rparr>)))"

definition getLogger :: "string \<Rightarrow> ('p, 'v, 'e) world \<Rightarrow> Logger \<times> ('p, 'v, 'e) world" where
  "getLogger name w = (Logger name, log_effect (GetLogger name) w)"

definition convert_payload ::
  "string \<Rightarrow> string \<Rightarrow> addr \<Rightarrow> ('p, 'v, 'e) world \<Rightarrow> 'p ResourceRequest \<times> ('p, 'v, 'e) world" where
  "convert_payload stack_nm stack_ident payload w =
     (let pl = payloads w payload;
          creds = callerCredentials (requestData pl);
          client_factory =
            connect_to (accessKeyId creds) (sessionToken creds) (secretAccessKey creds) (region pl);
          w1 = log_effect
                 (ConnectTo (accessKeyId creds) (sessionToken creds) (secretAccessKey creds)
                    (region pl)) w;
          desired = resourceProperties (requestData pl);
          (token, w2) = uuid4 w1;
          (lg, w3) = getLogger ''abc'' w2
      in (\<lparr>original_payload = desired,
           aws_client_factory = client_factory,
           request_token = token,
           stack_name = stack_nm,
           stack_id = stack_ident,
           account_id = ''000000000000'',
           region_name = ''us-east-1'',
           desired_state = desired,
           logical_resource_id = logicalResourceId (requestData pl),
           logger = lg,
           request_custom_context = callbackContext pl,
           previous_state = None,
           previous_tags = None,
           tags = Map.empty\<rparr>, w3))"

subsection \<open>The executor\<close>

record ResourceProviderExecutor =
  self_resource_type :: string
  self_stack_name :: string
  self_stack_id :: string

text \<open>\<^verbatim>\<open>provider_cls()\<close>: the instance has the capabilities of its class.\<close>

definition instantiate ::
  "('p, 'v, 'e) ResourceProvider \<Rightarrow> ('p, 'v, 'e) world \<Rightarrow>
   ('p, 'v, 'e) ResourceProvider \<times> ('p, 'v, 'e) world" where
  "instantiate provider_cls w = (provider_cls, log_effect (Instantiate (TYPE_name provider_cls)) w)"

text \<open>
  A call \<^verbatim>\<open>provider.create(request)\<close> (or \<^verbatim>\<open>update\<close>, \<^verbatim>\<open>delete\<close>): the capability
  runs on the providers' world, and what it returns or raises is the outcome of the call.
\<close>

definition invoke ::
  "capability_name \<Rightarrow> ('p, 'v, 'e) capability \<Rightarrow> 'p ResourceRequest \<Rightarrow> ('p, 'v, 'e) world \<Rightarrow>
   (exc + ('p, 'v) ProgressEvent) \<times> ('p, 'v, 'e) world" where
  "invoke c f request w =
     (let (r, e') = f request (dicts w) (env w)
      in (r, log_effect (Invoke c request (dicts w (request_custom_context request)) r)
               (w\<lparr>env := e'\<rparr>)))"

definition execute_action ::
  "ResourceProviderExecutor \<Rightarrow> addr \<Rightarrow> ('p, 'v, 'e) world \<Rightarrow>
   (exc + ('p, 'v) ProgressEvent) \<times> ('p, 'v, 'e) world" where
  "execute_action self raw_payload w =
     (case PRIVATE_REGISTRY w (self_resource_type self) of
        Some provider_cls \<Rightarrow>
          (let change_type = action (payloads w raw_payload);
               (request, w1) =
                 convert_payload (self_stack_name self) (self_stack_id self) raw_payload w;
               (provider, w2) = instantiate provider_cls w1
           in if change_type = ''Add'' then invoke Create (create provider) request w2
              else if change_type = ''Dynamic'' \<or> change_type = ''Modify''
                then invoke Update (update provider) request w2
              else if change_type = ''Remove'' then invoke Delete (delete provider) request w2
              else (Inl (NotImplementedError (Some change_type)), w2))
      | None \<Rightarrow> (Inl (NotImplementedError None), w))"

text \<open>
  \<^verbatim>\<open>copy.deepcopy(raw_payload)\<close>: a new payload object whose callback context is a new
  context object with the same content.
\<close>

definition deepcopy :: "addr \<Rightarrow> ('p, 'v, 'e) world \<Rightarrow> addr \<times> ('p, 'v, 'e) world" where
  "deepcopy raw_payload w =
     (let p = next_addr w;
          c = Suc (next_addr w);
          pl = payloads w raw_payload
      in (p, w\<lparr>payloads := (payloads w)(p := pl\<lparr>callbackContext := c\<rparr>),
               dicts := (dicts w)(c := dicts w (callbackContext pl)),
               next_addr := Suc (Suc (next_addr w))\<rparr>))"

text \<open>
  Lines 163 and 164: \<^verbatim>\<open>context = {**payload["callbackContext"], **event.custom_context}\<close>
  builds a new context object, and \<^verbatim>\<open>payload["callbackContext"] = context\<close> rebinds the
  payload's key to it.
\<close>

definition merge_context ::
  "addr \<Rightarrow> ('p, 'v) ProgressEvent \<Rightarrow> ('p, 'v, 'e) world \<Rightarrow> ('p, 'v, 'e) world" where
  "merge_context payload event w =
     (let context = next_addr w;
          merged = dicts w (callbackContext (payloads w payload)) ++ custom_context event
      in w\<lparr>dicts := (dicts w)(context := merged),
           next_addr := Suc (next_addr w),
           payloads := (payloads w)(payload := (payloads w payload)\<lparr>callbackContext := context\<rparr>)\<rparr>)"

text \<open>
  \<^verbatim>\<open>time.sleep\<close> raises \<^verbatim>\<open>ValueError\<close> on a negative length, before it sleeps. The
  delay, a Python \<^verbatim>\<open>float\<close>, is only ever passed to \<^verbatim>\<open>time.sleep\<close>: it is a real
  number here.
\<close>

definition time_sleep :: "real \<Rightarrow> ('p, 'v, 'e) world \<Rightarrow> (exc + unit) \<times> ('p, 'v, 'e) world" where
  "time_sleep secs w =
     (if secs < 0 then (Inl (ValueError ''sleep length must be non-negative''), w)
      else (Inr (), log_effect (Sleep secs) w))"

text \<open>
  One pass through the body of the loop of \<^verbatim>\<open>deploy_loop\<close> (lines 160 to 165): it
  returns the event, raises, or falls through to the next iteration.
\<close>

datatype ('p, 'v) flow = Return "('p, 'v) ProgressEvent" | Raise exc | Next

definition loop_body ::
  "ResourceProviderExecutor \<Rightarrow> real \<Rightarrow> addr \<Rightarrow> ('p, 'v, 'e) world \<Rightarrow>
   ('p, 'v) flow \<times> ('p, 'v, 'e) world" where
  "loop_body self sleep_time payload w =
     (case execute_action self payload w of
        (Inl e, w1) \<Rightarrow> (Raise e, w1)
      | (Inr event, w1) \<Rightarrow>
          if status event = SUCCESS then (Return event, w1)
          else (case time_sleep sleep_time (merge_context payload event w1) of
                  (Inl e, w2) \<Rightarrow> (Raise e, w2)
                | (Inr _, w2) \<Rightarrow> (Next, w2)))"

text \<open>
  \<^verbatim>\<open>for _ in range(max_iterations): ... else: raise TimeoutError(...)\<close>, by the number
  of iterations left.
\<close>

fun deploy_iterations ::
  "ResourceProviderExecutor \<Rightarrow> nat \<Rightarrow> real \<Rightarrow> addr \<Rightarrow> ('p, 'v, 'e) world \<Rightarrow>
   (exc + ('p, 'v) ProgressEvent) \<times> ('p, 'v, 'e) world" where
  "deploy_iterations self 0 sleep_time payload w =
     (Inl (TimeoutError ''Could not perform deploy loop action''), w)"
| "deploy_iterations self (Suc n) sleep_time payload w =
     (case loop_body self sleep_time payload w of
        (Return event, w1) \<Rightarrow> (Inr event, w1)
      | (Raise e, w1) \<Rightarrow> (Inl e, w1)
      | (Next, w1) \<Rightarrow> deploy_iterations self n sleep_time payload w1)"

text \<open>\<^verbatim>\<open>range(max_iterations)\<close> is empty when \<^verbatim>\<open>max_iterations\<close> is zero or negative.\<close>

definition deploy_loop ::
  "ResourceProviderExecutor \<Rightarrow> addr \<Rightarrow> int \<Rightarrow> real \<Rightarrow> ('p, 'v, 'e) world \<Rightarrow>
   (exc + ('p, 'v) ProgressEvent) \<times> ('p, 'v, 'e) world" where
  "deploy_loop self raw_payload max_iterations sleep_time w =
     (let (payload, w0) = deepcopy raw_payload w
      in deploy_iterations self (nat max_iterations) sleep_time payload w0)"

subsection \<open>Observing a run\<close>

text \<open>
  The attempts in a log: for each invocation of a capability, the content of the callback
  context it was given and its outcome. The sleeps in a log: their lengths.
\<close>

fun attempts :: "('p, 'v) effect list \<Rightarrow> ('v dict \<times> (exc + ('p, 'v) ProgressEvent)) list" where
  "attempts [] = []"
| "attempts (Invoke c request ctx r # xs) = (ctx, r) # attempts xs"
| "attempts (x # xs) = attempts xs"

fun sleeps :: "('p, 'v) effect list \<Rightarrow> real list" where
  "sleeps [] = []"
| "sleeps (Sleep secs # xs) = secs # sleeps xs"
| "sleeps (x # xs) = sleeps xs"

text \<open>What a run from the world \<open>w\<close> to the world \<open>w'\<close> added to the log.\<close>

definition run_effects :: "('p, 'v, 'e) world \<Rightarrow> ('p, 'v, 'e) world \<Rightarrow> ('p, 'v) effect list" where
  "run_effects w w' = drop (length (trace w)) (trace w')"

text \<open>
  The world in which attempt \<open>i + 1\<close> of the loop takes place: the world the loop
  started in, after \<open>i\<close> passes through the body of the loop.
\<close>

definition attempt_world ::
  "ResourceProviderExecutor \<Rightarrow> real \<Rightarrow> addr \<Rightarrow> ('p, 'v, 'e) world \<Rightarrow> nat \<Rightarrow> ('p, 'v, 'e) world" where
  "attempt_world self sleep_time payload w0 i =
     ((\<lambda>w. snd (loop_body self sleep_time payload w)) ^^ i) w0"

text \<open>The outside calls of one translation of the payload \<open>pl\<close> that draws \<open>token\<close>.\<close>

definition translation_effects :: "'p ResourceProviderPayload \<Rightarrow> string \<Rightarrow> ('p, 'v) effect list" where
  "translation_effects pl token =
     [ConnectTo (accessKeyId (callerCredentials (requestData pl)))
        (sessionToken (callerCredentials (requestData pl)))
        (secretAccessKey (callerCredentials (requestData pl))) (region pl),
      Uuid4 token, GetLogger ''abc'']"

text \<open>
  The world after the translation of the payload at \<open>p\<close> and the instantiation of the
  provider class \<open>cls\<close>: the world in which \<^verbatim>\<open>execute_action\<close> matches the action.
\<close>

definition dispatch_world ::
  "addr \<Rightarrow> ('p, 'v, 'e) ResourceProvider \<Rightarrow> ('p, 'v, 'e) world \<Rightarrow> ('p, 'v, 'e) world" where
  "dispatch_world p cls w =
     w\<lparr>uuid4_calls := Suc (uuid4_calls w),
       trace := trace w @ translation_effects (payloads w p) (uuid4_values w (uuid4_calls w))
                  @ [Instantiate (TYPE_name cls)]\<rparr>"

text \<open>The capabilities invoked in a log, in order.\<close>

fun capabilities :: "('p, 'v) effect list \<Rightarrow> capability_name list" where
  "capabilities [] = []"
| "capabilities (Invoke c request ctx r # xs) = c # capabilities xs"
| "capabilities (x # xs) = capabilities xs"

text \<open>The content of the callback context the payload at \<open>payload\<close> refers to.\<close>

definition current_context :: "addr \<Rightarrow> ('p, 'v, 'e) world \<Rightarrow> 'v dict" where
  "current_context payload w = dicts w (callbackContext (payloads w payload))"

text \<open>The requests in a log: for each invocation of a capability, the request it was given.\<close>

fun requests :: "('p, 'v) effect list \<Rightarrow> 'p ResourceRequest list" where
  "requests [] = []"
| "requests (Invoke c request ctx r # xs) = request # requests xs"
| "requests (x # xs) = requests xs"


subsection \<open>An example: two providers, one payload\<close>

text \<open>
  The end-to-end scenarios: a provider whose \<^verbatim>\<open>create\<close> answers \<^verbatim>\<open>IN_PROGRESS\<close>
  twice, with the number of the attempt in its context (and a second key the first time),
  and then \<^verbatim>\<open>SUCCESS\<close>; a provider whose \<^verbatim>\<open>create\<close> always answers
  \<^verbatim>\<open>FAILED\<close>. The providers' world is the number of calls made so far. The payload
  object is at address 0 and its callback context at address 1.
\<close>

definition example_event :: "OperationStatus \<Rightarrow> string \<Rightarrow> nat dict \<Rightarrow> (string, nat) ProgressEvent" where
  "example_event s model ctx =
     \<lparr>status = s, resource_model = model, message = [], result = None, error_code = None,
      custom_context = ctx\<rparr>"

definition polling_provider :: "(string, nat, nat) ResourceProvider" where
  "polling_provider =
     \<lparr>TYPE_name = Some ''Test::Resource'',
      create = (\<lambda>request ds n.
        if n < 2
        then (Inr (example_event IN_PROGRESS (desired_state request)
                (if n = 0 then [''attempt'' \<mapsto> 1, ''created'' \<mapsto> 1]
                 else [''attempt'' \<mapsto> Suc n])), Suc n)
        else (Inr (example_event SUCCESS (desired_state request) Map.empty), Suc n)),
      update = (\<lambda>request ds n. (Inl (NotImplementedError None), n)),
      delete = (\<lambda>request ds n. (Inl (NotImplementedError None), n))\<rparr>"

definition failing_provider :: "(string, nat, nat) ResourceProvider" where
  "failing_provider =
     \<lparr>TYPE_name = Some ''Test::Failing'',
      create = (\<lambda>request ds n.
        (Inr (example_event FAILED (desired_state request) Map.empty), Suc n)),
      update = (\<lambda>request ds n. (Inl (NotImplementedError None), n)),
      delete = (\<lambda>request ds n. (Inl (NotImplementedError None), n))\<rparr>"

definition example_payload :: "string \<Rightarrow> string ResourceProviderPayload" where
  "example_payload act =
     \<lparr>callbackContext = 1,
      stackId = ''stack-1'',
      requestData =
        \<lparr>logicalResourceId = ''Queue'',
         resourceProperties = ''my-queue'',
         previousResourceProperties = None,
         callerCredentials =
           \<lparr>accessKeyId = ''key'', secretAccessKey = ''secret'', sessionToken = ''session''\<rparr>,
         providerCredentials =
           \<lparr>accessKeyId = ''key'', secretAccessKey = ''secret'', sessionToken = ''session''\<rparr>,
         systemTags = Map.empty, previousSystemTags = Map.empty,
         stackTags = Map.empty, previousStackTags = Map.empty\<rparr>,
      resourceType = ''Test::Resource'',
      resourceTypeVersion = ''1'',
      awsAccountId = ''123456789012'',
      bearerToken = ''bearer'',
      region = ''eu-west-1'',
      action = act\<rparr>"

definition example_world :: "string \<Rightarrow> (string, nat, nat) world" where
  "example_world act =
     register_resource_provider failing_provider
       (register_resource_provider polling_provider
          \<lparr>PRIVATE_REGISTRY = Map.empty,
           payloads = (\<lambda>a. example_payload act),
           dicts = (\<lambda>a. Map.empty),
           next_addr = 2,
           uuid4_values = (\<lambda>n. replicate (Suc n) CHR ''u''),
           uuid4_calls = 0,
           env = 0,
           trace = []\<rparr>)"

definition example_executor :: "string \<Rightarrow> ResourceProviderExecutor" where
  "example_executor t =
     \<lparr>self_resource_type = t, self_stack_name = ''stack'', self_stack_id = ''stack-1''\<rparr>"

text \<open>The run of the first scenario, and its attempts.\<close>

definition example_run :: "(exc + (string, nat) ProgressEvent) \<times> (string, nat, nat) world" where
  "example_run = deploy_loop (example_executor ''Test::Resource'') 0 30 0 (example_world ''Add'')"

definition example_attempts :: "(nat dict \<times> (exc + (string, nat) ProgressEvent)) list" where
  "example_attempts = attempts (run_effects (example_world ''Add'') (snd example_run))"

section \<open>Properties\<close>

subsection \<open>Logs\<close>

lemma attempts_append: "attempts (xs @ ys) = attempts xs @ attempts ys"
  by (induction xs rule: attempts.induct) simp_all

lemma sleeps_append: "sleeps (xs @ ys) = sleeps xs @ sleeps ys"
  by (induction xs rule: sleeps.induct) simp_all

lemma requests_append: "requests (xs @ ys) = requests xs @ requests ys"
  by (induction xs rule: requests.induct) simp_all

lemma capabilities_append: "capabilities (xs @ ys) = capabilities xs @ capabilities ys"
  by (induction xs rule: capabilities.induct) simp_all

lemma run_effects_append: "trace w' = trace w @ xs \<Longrightarrow> run_effects w w' = xs"
  by (simp add: run_effects_def)

subsection \<open>The translator\<close>

text \<open>
  The world after a translation, and the request it builds.
\<close>

lemma convert_payload_world:
  "snd (convert_payload sn sid p w) =
     w\<lparr>uuid4_calls := Suc (uuid4_calls w),
       trace := trace w @ translation_effects (payloads w p) (uuid4_values w (uuid4_calls w))\<rparr>"
  by (simp add: convert_payload_def uuid4_def getLogger_def log_effect_def Let_def
      translation_effects_def)

lemma convert_payload_request:
  "fst (convert_payload sn sid p w) =
     \<lparr>original_payload = resourceProperties (requestData (payloads w p)),
      aws_client_factory =
        connect_to (accessKeyId (callerCredentials (requestData (payloads w p))))
          (sessionToken (callerCredentials (requestData (payloads w p))))
          (secretAccessKey (callerCredentials (requestData (payloads w p))))
          (region (payloads w p)),
      request_token = uuid4_values w (uuid4_calls w),
      stack_name = sn, stack_id = sid,
      account_id = ''000000000000'', region_name = ''us-east-1'',
      desired_state = resourceProperties (requestData (payloads w p)),
      logical_resource_id = logicalResourceId (requestData (payloads w p)),
      logger = Logger ''abc'',
      request_custom_context = callbackContext (payloads w p),
      previous_state = None, previous_tags = None, tags = Map.empty\<rparr>"
  by (simp add: convert_payload_def uuid4_def getLogger_def log_effect_def Let_def)

subsection \<open>One dispatch\<close>

text \<open>
  \<^verbatim>\<open>execute_action\<close> writes no payload object and no context object, never sleeps, and
  invokes at most one capability, on the callback context of the payload it was given.
\<close>

lemma execute_action_registered:
  assumes "PRIVATE_REGISTRY w (self_resource_type self) = Some cls"
  shows "execute_action self p w =
     (let change_type = action (payloads w p);
          request = fst (convert_payload (self_stack_name self) (self_stack_id self) p w);
          w2 = dispatch_world p cls w
      in if change_type = ''Add'' then invoke Create (create cls) request w2
         else if change_type = ''Dynamic'' \<or> change_type = ''Modify''
           then invoke Update (update cls) request w2
         else if change_type = ''Remove'' then invoke Delete (delete cls) request w2
         else (Inl (NotImplementedError (Some change_type)), w2))"
  using assms
  by (simp add: execute_action_def instantiate_def log_effect_def split_def Let_def
      convert_payload_world dispatch_world_def)

lemma invoke_frame:
  assumes "invoke c f request w = (r, w1)"
  shows "payloads w1 = payloads w \<and> dicts w1 = dicts w \<and> next_addr w1 = next_addr w \<and>
         PRIVATE_REGISTRY w1 = PRIVATE_REGISTRY w \<and>
         trace w1 = trace w @ [Invoke c request (dicts w (request_custom_context request)) r]"
  using assms by (auto simp: invoke_def log_effect_def split_def Let_def)

lemma execute_action_frame:
  assumes "execute_action self p w = (r, w1)"
  shows "payloads w1 = payloads w \<and> dicts w1 = dicts w \<and> next_addr w1 = next_addr w \<and>
         PRIVATE_REGISTRY w1 = PRIVATE_REGISTRY w"
proof (cases "PRIVATE_REGISTRY w (self_resource_type self)")
  case None
  with assms show ?thesis by (simp add: execute_action_def)
next
  case (Some cls)
  have d: "payloads (dispatch_world p cls w) = payloads w \<and>
           dicts (dispatch_world p cls w) = dicts w \<and>
           next_addr (dispatch_world p cls w) = next_addr w \<and>
           PRIVATE_REGISTRY (dispatch_world p cls w) = PRIVATE_REGISTRY w"
    by (simp add: dispatch_world_def)
  from assms show ?thesis
    unfolding execute_action_registered [OF Some] Let_def
    using d by (auto split: if_splits dest!: invoke_frame)
qed

lemma execute_action_effects:
  assumes "execute_action self p w = (r, w1)"
  shows "\<exists>xs. trace w1 = trace w @ xs \<and> sleeps xs = [] \<and>
           (attempts xs = [(dicts w (callbackContext (payloads w p)), r)] \<or>
            attempts xs = [] \<and> (\<exists>e. r = Inl e))"
proof (cases "PRIVATE_REGISTRY w (self_resource_type self)")
  case None
  with assms show ?thesis by (auto simp: execute_action_def)
next
  case (Some cls)
  have d: "dicts (dispatch_world p cls w) = dicts w"
          "trace (dispatch_world p cls w) =
             trace w @ translation_effects (payloads w p) (uuid4_values w (uuid4_calls w))
                  @ [Instantiate (TYPE_name cls)]"
    by (simp_all add: dispatch_world_def)
  from assms show ?thesis
    unfolding execute_action_registered [OF Some] Let_def
    using d
    by (auto split: if_splits dest!: invoke_frame
        simp: attempts_append sleeps_append translation_effects_def convert_payload_request)
qed

lemma execute_action_requests:
  assumes "execute_action self p w = (r, w1)" and "trace w1 = trace w @ xs"
  shows "list_all (\<lambda>request. request_custom_context request = callbackContext (payloads w p))
           (requests xs)"
proof (cases "PRIVATE_REGISTRY w (self_resource_type self)")
  case None
  with assms show ?thesis by (auto simp: execute_action_def)
next
  case (Some cls)
  have d: "trace (dispatch_world p cls w) =
             trace w @ translation_effects (payloads w p) (uuid4_values w (uuid4_calls w))
                  @ [Instantiate (TYPE_name cls)]"
    by (simp add: dispatch_world_def)
  from assms show ?thesis
    unfolding execute_action_registered [OF Some] Let_def
    using d
    by (auto split: if_splits dest!: invoke_frame
        simp: requests_append translation_effects_def convert_payload_request)
qed

lemma dispatch_world_effects:
  "run_effects w (dispatch_world p cls w) =
     translation_effects (payloads w p) (uuid4_values w (uuid4_calls w)) @
     [Instantiate (TYPE_name cls)]"
  by (simp add: run_effects_def dispatch_world_def)

lemma invoke_outcome:
  "invoke c f request (dispatch_world p cls w) = (r, w1) \<Longrightarrow>
     (r, env w1) = f request (dicts w) (env w) \<and>
     capabilities (run_effects w w1) = [c] \<and> requests (run_effects w w1) = [request]"
  by (auto simp: invoke_def log_effect_def split_def Let_def dispatch_world_def run_effects_def
      translation_effects_def)

subsection \<open>One pass through the body of the loop\<close>







lemma loop_body_step:
  assumes "loop_body self st p w = (f, w')"
  shows "PRIVATE_REGISTRY w' = PRIVATE_REGISTRY w \<and>
     (\<exists>xs. trace w' = trace w @ xs \<and>
        list_all (\<lambda>request. request_custom_context request = callbackContext (payloads w p))
           (requests xs) \<and>
        ((\<exists>ev. f = Return ev \<and> status ev = SUCCESS \<and>
               attempts xs = [(current_context p w, Inr ev)] \<and>
               payloads w' = payloads w \<and> dicts w' = dicts w \<and> next_addr w' = next_addr w) \<or>
         (\<exists>e. f = Raise e \<and>
               (attempts xs = [] \<or> attempts xs = [(current_context p w, Inl e)]) \<and>
               payloads w' = payloads w \<and> dicts w' = dicts w \<and> next_addr w' = next_addr w) \<or>
         (\<exists>ev. (f = Next \<or> (\<exists>e. f = Raise e)) \<and> status ev \<noteq> SUCCESS \<and>
               attempts xs = [(current_context p w, Inr ev)] \<and>
               payloads w' = (payloads w)(p := (payloads w p)\<lparr>callbackContext := next_addr w\<rparr>) \<and>
               dicts w' = (dicts w)(next_addr w := current_context p w ++ custom_context ev) \<and>
               next_addr w' = Suc (next_addr w))))"
proof -
  obtain r w1 where ex: "execute_action self p w = (r, w1)"
    by (cases "execute_action self p w") auto
  from execute_action_frame [OF ex] have fr:
    "payloads w1 = payloads w" "dicts w1 = dicts w" "next_addr w1 = next_addr w"
    "PRIVATE_REGISTRY w1 = PRIVATE_REGISTRY w" by simp_all
  from execute_action_effects [OF ex] obtain xs where
    xs: "trace w1 = trace w @ xs" "sleeps xs = []"
    and at: "attempts xs = [(current_context p w, r)] \<or> attempts xs = [] \<and> (\<exists>e. r = Inl e)"
    by (auto simp: current_context_def)
  from execute_action_requests [OF ex xs(1)] have
    rq: "list_all (\<lambda>request. request_custom_context request = callbackContext (payloads w p))
           (requests xs)" .
  show ?thesis
  proof (cases r)
    case (Inl e)
    with assms ex have "f = Raise e" "w' = w1" by (simp_all add: loop_body_def)
    with fr xs at rq Inl show ?thesis by auto
  next
    case (Inr ev)
    with at have at': "attempts xs = [(current_context p w, Inr ev)]" by auto
    show ?thesis
    proof (cases "status ev = SUCCESS")
      case True
      with assms ex Inr have "f = Return ev" "w' = w1" by (simp_all add: loop_body_def)
      with fr xs at' rq True show ?thesis by auto
    next
      case False
      let ?m = "merge_context p ev w1"
      have m: "payloads ?m = (payloads w)(p := (payloads w p)\<lparr>callbackContext := next_addr w\<rparr>)"
        "dicts ?m = (dicts w)(next_addr w := current_context p w ++ custom_context ev)"
        "next_addr ?m = Suc (next_addr w)" "trace ?m = trace w @ xs"
        "PRIVATE_REGISTRY ?m = PRIVATE_REGISTRY w"
        by (simp_all add: merge_context_def Let_def fr xs current_context_def)
      show ?thesis
      proof (cases "st < 0")
        case True
        with assms ex Inr False have "f = Raise (ValueError ''sleep length must be non-negative'')"
          "w' = ?m" by (simp_all add: loop_body_def time_sleep_def)
        with m at' rq False show ?thesis by auto
      next
        case nonneg: False
        with assms ex Inr False have f: "f = Next" "w' = log_effect (Sleep st) ?m"
          by (simp_all add: loop_body_def time_sleep_def)
        have "trace w' = trace w @ (xs @ [Sleep st])"
          by (simp add: f log_effect_def m)
        moreover have "attempts (xs @ [Sleep st]) = [(current_context p w, Inr ev)]"
          by (simp add: attempts_append at')
        moreover have "list_all (\<lambda>request. request_custom_context request = callbackContext (payloads w p))
           (requests (xs @ [Sleep st]))"
          using rq by (simp add: requests_append)
        moreover have "payloads w' = (payloads w)(p := (payloads w p)\<lparr>callbackContext := next_addr w\<rparr>)"
          "dicts w' = (dicts w)(next_addr w := current_context p w ++ custom_context ev)"
          "next_addr w' = Suc (next_addr w)" "PRIVATE_REGISTRY w' = PRIVATE_REGISTRY w"
          by (simp_all add: f log_effect_def m)
        ultimately show ?thesis using f(1) False by blast
      qed
    qed
  qed
qed

subsection \<open>The loop\<close>

lemma deepcopy_trace: "trace (snd (deepcopy raw w)) = trace w"
  by (simp add: deepcopy_def Let_def)

lemma deepcopy_context:
  "current_context (fst (deepcopy raw w)) (snd (deepcopy raw w)) = current_context raw w"
  by (simp add: deepcopy_def Let_def current_context_def)




lemma deploy_iterations_unfold:
  "0 < n \<Longrightarrow> deploy_iterations self n st p w =
     (case loop_body self st p w of
        (Return event, w1) \<Rightarrow> (Inr event, w1)
      | (Raise e, w1) \<Rightarrow> (Inl e, w1)
      | (Next, w1) \<Rightarrow> deploy_iterations self (n - 1) st p w1)"
proof -
  assume "0 < n"
  then obtain m where n: "n = Suc m" by (cases n) auto
  show ?thesis unfolding n by (simp only: deploy_iterations.simps diff_Suc_1)
qed





lemma deploy_iterations_frame:
  assumes "b \<le> next_addr w" and "b \<le> p" and "b \<le> callbackContext (payloads w p)"
  shows "(\<forall>a<b. payloads (snd (deploy_iterations self n st p w)) a = payloads w a \<and>
                dicts (snd (deploy_iterations self n st p w)) a = dicts w a) \<and>
         (\<exists>xs. trace (snd (deploy_iterations self n st p w)) = trace w @ xs \<and>
               list_all (\<lambda>request. b \<le> request_custom_context request) (requests xs))"
  using assms
proof (induction n arbitrary: w)
  case 0
  have "trace (snd (deploy_iterations self 0 st p w)) = trace w @ [] \<and>
        list_all (\<lambda>request. b \<le> request_custom_context request) (requests [])"
    by simp
  then have "\<exists>xs. trace (snd (deploy_iterations self 0 st p w)) = trace w @ xs \<and>
               list_all (\<lambda>request. b \<le> request_custom_context request) (requests xs)"
    by (rule exI)
  then show ?case by simp
next
  case (Suc n)
  obtain f w1 where lb: "loop_body self st p w = (f, w1)"
    by (cases "loop_body self st p w") auto
  from loop_body_step [OF lb] obtain xs where xs: "trace w1 = trace w @ xs"
    and rq: "list_all (\<lambda>request. request_custom_context request = callbackContext (payloads w p))
           (requests xs)"
    and heap: "(payloads w1 = payloads w \<and> dicts w1 = dicts w \<and> next_addr w1 = next_addr w) \<or>
               (payloads w1 = (payloads w)(p := (payloads w p)\<lparr>callbackContext := next_addr w\<rparr>) \<and>
                (\<exists>m. dicts w1 = (dicts w)(next_addr w := m)) \<and>
                next_addr w1 = Suc (next_addr w))"
    by blast
  from rq Suc.prems(3) have rq': "list_all (\<lambda>request. b \<le> request_custom_context request) (requests xs)"
    by (simp add: list_all_iff)
  from heap Suc.prems have fr: "\<forall>a<b. payloads w1 a = payloads w a \<and> dicts w1 a = dicts w a"
    by auto
  from heap Suc.prems have inv: "b \<le> next_addr w1" "b \<le> callbackContext (payloads w1 p)"
    by auto
  show ?case
  proof (cases "f = Next")
    case False
    then have "snd (deploy_iterations self (Suc n) st p w) = w1"
      by (cases f) (simp_all add: lb)
    with fr xs rq' show ?thesis by auto
  next
    case True
    then have step: "deploy_iterations self (Suc n) st p w = deploy_iterations self n st p w1"
      by (simp add: lb)
    from Suc.IH [OF inv(1) Suc.prems(2) inv(2)] obtain ys where
      fr': "\<forall>a<b. payloads (snd (deploy_iterations self n st p w1)) a = payloads w1 a \<and>
                dicts (snd (deploy_iterations self n st p w1)) a = dicts w1 a"
      and ys: "trace (snd (deploy_iterations self n st p w1)) = trace w1 @ ys"
        "list_all (\<lambda>request. b \<le> request_custom_context request) (requests ys)"
      by blast
    have "trace (snd (deploy_iterations self (Suc n) st p w)) = trace w @ (xs @ ys)"
      unfolding step by (simp add: ys xs)
    moreover have "list_all (\<lambda>request. b \<le> request_custom_context request) (requests (xs @ ys))"
      using rq' ys by (simp add: requests_append)
    moreover have "\<forall>a<b. payloads (snd (deploy_iterations self (Suc n) st p w)) a = payloads w a \<and>
                dicts (snd (deploy_iterations self (Suc n) st p w)) a = dicts w a"
      unfolding step using fr fr' by simp
    ultimately show ?thesis by blast
  qed
qed

subsection \<open>The example\<close>

lemmas example_defs = example_world_def example_executor_def example_payload_def
  polling_provider_def failing_provider_def register_resource_provider_def example_event_def

lemmas run_defs = deepcopy_def attempt_world_def loop_body_def execute_action_def
  convert_payload_def uuid4_def getLogger_def instantiate_def invoke_def log_effect_def
  merge_context_def time_sleep_def connect_to_def Let_def split_def

lemma example_registry:
  "PRIVATE_REGISTRY (example_world act) =
     [''Test::Resource'' \<mapsto> polling_provider, ''Test::Failing'' \<mapsto> failing_provider]"
  by (simp add: example_world_def register_resource_provider_def polling_provider_def
      failing_provider_def)

lemma example_world_simps:
  "payloads (example_world act) = (\<lambda>a. example_payload act)"
  "dicts (example_world act) = (\<lambda>a. Map.empty)"
  "next_addr (example_world act) = 2"
  "uuid4_calls (example_world act) = 0"
  "uuid4_values (example_world act) = (\<lambda>n. replicate (Suc n) CHR ''u'')"
  "env (example_world act) = 0"
  "trace (example_world act) = []"
  by (simp_all add: example_world_def register_resource_provider_def polling_provider_def
      failing_provider_def)



lemma example_translation:
  "fst (convert_payload ''stack'' ''stack-1'' 0 (example_world act)) =
     \<lparr>original_payload = ''my-queue'',
      aws_client_factory = ClientFactory ''key'' ''session'' ''secret'' ''eu-west-1'',
      request_token = ''u'',
      stack_name = ''stack'', stack_id = ''stack-1'',
      account_id = ''000000000000'', region_name = ''us-east-1'',
      desired_state = ''my-queue'',
      logical_resource_id = ''Queue'',
      logger = Logger ''abc'',
      request_custom_context = 1,
      previous_state = None, previous_tags = None, tags = Map.empty\<rparr>"
  by (simp add: convert_payload_request example_world_simps example_payload_def connect_to_def)


lemma example_run_requests:
  "map request_custom_context (requests (run_effects (example_world ''Add'') (snd example_run))) =
     [3, 4, 5]"
  by (simp add: example_attempts_def example_run_def deploy_loop_def example_defs run_defs
      run_effects_def deploy_iterations_unfold numeral_2_eq_2)

subsection \<open>The claims\<close>







text \<open>
  Claim C4. For a registered resource type, with \<open>request\<close> the translation of the
  payload: the action \<^verbatim>\<open>"Add"\<close> invokes \<^verbatim>\<open>create\<close> of the provider on the request,
  \<^verbatim>\<open>"Modify"\<close> and \<^verbatim>\<open>"Dynamic"\<close> invoke \<^verbatim>\<open>update\<close>, \<^verbatim>\<open>"Remove"\<close> invokes
  \<^verbatim>\<open>delete\<close>; that is the only capability invoked, and \<^verbatim>\<open>execute_action\<close> returns
  (or raises) exactly what it returned (or raised), leaving the providers' world as the
  capability left it. Any other action raises \<^verbatim>\<open>NotImplementedError\<close> with that action
  as its argument, and no capability is invoked.
\<close>

theorem execute_action_dispatch:
  assumes "PRIVATE_REGISTRY w (self_resource_type self) = Some cls"
  shows "let act = action (payloads w p);
             request = fst (convert_payload (self_stack_name self) (self_stack_id self) p w);
             (r, w') = execute_action self p w;
             called = capabilities (run_effects w w')
         in (act = ''Add'' \<longrightarrow>
               (r, env w') = create cls request (dicts w) (env w) \<and> called = [Create]) \<and>
            (act = ''Modify'' \<or> act = ''Dynamic'' \<longrightarrow>
               (r, env w') = update cls request (dicts w) (env w) \<and> called = [Update]) \<and>
            (act = ''Remove'' \<longrightarrow>
               (r, env w') = delete cls request (dicts w) (env w) \<and> called = [Delete]) \<and>
            (act \<noteq> ''Add'' \<and> act \<noteq> ''Modify'' \<and> act \<noteq> ''Dynamic'' \<and> act \<noteq> ''Remove'' \<longrightarrow>
               r = Inl (NotImplementedError (Some act)) \<and> env w' = env w \<and> called = [])"
proof -
  obtain r w' where ex: "execute_action self p w = (r, w')"
    by (cases "execute_action self p w") auto
  let ?act = "action (payloads w p)"
  let ?request = "fst (convert_payload (self_stack_name self) (self_stack_id self) p w)"
  note reg = execute_action_registered [OF assms, of p, unfolded Let_def]
  have add: "(r, env w') = create cls ?request (dicts w) (env w) \<and>
             capabilities (run_effects w w') = [Create]" if "?act = ''Add''"
    using ex that invoke_outcome [of Create "create cls" ?request p cls w r w']
    by (simp add: reg)
  have upd: "(r, env w') = update cls ?request (dicts w) (env w) \<and>
             capabilities (run_effects w w') = [Update]" if "?act = ''Modify'' \<or> ?act = ''Dynamic''"
    using ex that invoke_outcome [of Update "update cls" ?request p cls w r w']
    by (auto simp: reg)
  have del: "(r, env w') = delete cls ?request (dicts w) (env w) \<and>
             capabilities (run_effects w w') = [Delete]" if "?act = ''Remove''"
    using ex that invoke_outcome [of Delete "delete cls" ?request p cls w r w']
    by (simp add: reg)
  have other: "r = Inl (NotImplementedError (Some ?act)) \<and> env w' = env w \<and>
               capabilities (run_effects w w') = []"
    if "?act \<noteq> ''Add'' \<and> ?act \<noteq> ''Modify'' \<and> ?act \<noteq> ''Dynamic'' \<and> ?act \<noteq> ''Remove''"
  proof -
    from ex that have "r = Inl (NotImplementedError (Some ?act))" "w' = dispatch_world p cls w"
      by (simp_all add: reg)
    then show ?thesis
      by (simp add: dispatch_world_effects capabilities_append translation_effects_def)
        (simp add: dispatch_world_def)
  qed
  from add upd del other show ?thesis
    unfolding Let_def ex prod.case by blast
qed

text \<open>
  On the example payload: \<^verbatim>\<open>"Add"\<close> returns the event of \<^verbatim>\<open>create\<close>;
  \<^verbatim>\<open>"Modify"\<close> and \<^verbatim>\<open>"Dynamic"\<close> reach \<^verbatim>\<open>update\<close> and \<^verbatim>\<open>"Remove"\<close> reaches
  \<^verbatim>\<open>delete\<close>, which this provider does not implement; \<^verbatim>\<open>"Replace"\<close> is no action.
\<close>

theorem execute_action_dispatch_witness:
  "fst (execute_action (example_executor ''Test::Resource'') 0 (example_world ''Add'')) =
     Inr (example_event IN_PROGRESS ''my-queue'' [''attempt'' \<mapsto> 1, ''created'' \<mapsto> 1]) \<and>
   capabilities (run_effects (example_world ''Add'')
     (snd (execute_action (example_executor ''Test::Resource'') 0 (example_world ''Add'')))) =
     [Create] \<and>
   fst (execute_action (example_executor ''Test::Resource'') 0 (example_world ''Modify'')) =
     Inl (NotImplementedError None) \<and>
   capabilities (run_effects (example_world ''Modify'')
     (snd (execute_action (example_executor ''Test::Resource'') 0 (example_world ''Modify'')))) =
     [Update] \<and>
   capabilities (run_effects (example_world ''Dynamic'')
     (snd (execute_action (example_executor ''Test::Resource'') 0 (example_world ''Dynamic'')))) =
     [Update] \<and>
   capabilities (run_effects (example_world ''Remove'')
     (snd (execute_action (example_executor ''Test::Resource'') 0 (example_world ''Remove'')))) =
     [Delete] \<and>
   fst (execute_action (example_executor ''Test::Resource'') 0 (example_world ''Replace'')) =
     Inl (NotImplementedError (Some ''Replace'')) \<and>
   capabilities (run_effects (example_world ''Replace'')
     (snd (execute_action (example_executor ''Test::Resource'') 0 (example_world ''Replace'')))) =
     []"
proof -
  let ?self = "example_executor ''Test::Resource''"
  have reg: "PRIVATE_REGISTRY (example_world act) (self_resource_type ?self) = Some polling_provider"
    for act by (simp add: example_registry example_executor_def)
  have act: "action (payloads (example_world act) 0) = act" for act
    by (simp add: example_world_simps example_payload_def)
  have req: "fst (convert_payload (self_stack_name ?self) (self_stack_id ?self) 0 (example_world act)) =
     fst (convert_payload ''stack'' ''stack-1'' 0 (example_world act))" for act
    by (simp add: example_executor_def)
  note d = execute_action_dispatch [OF reg, of _ 0, unfolded Let_def split_def act req]
  have "fst (execute_action ?self 0 (example_world ''Add'')) =
      fst (create polling_provider (fst (convert_payload ''stack'' ''stack-1'' 0 (example_world ''Add'')))
        (dicts (example_world ''Add'')) (env (example_world ''Add'')))"
    "capabilities (run_effects (example_world ''Add'')
       (snd (execute_action ?self 0 (example_world ''Add'')))) = [Create]"
    using d [of "''Add''"] by (simp_all add: prod_eq_iff)
  moreover have "fst (execute_action ?self 0 (example_world ''Modify'')) =
      fst (update polling_provider (fst (convert_payload ''stack'' ''stack-1'' 0 (example_world ''Modify'')))
        (dicts (example_world ''Modify'')) (env (example_world ''Modify'')))"
    "capabilities (run_effects (example_world ''Modify'')
       (snd (execute_action ?self 0 (example_world ''Modify'')))) = [Update]"
    using d [of "''Modify''"] by (simp_all add: prod_eq_iff)
  moreover have "capabilities (run_effects (example_world ''Dynamic'')
       (snd (execute_action ?self 0 (example_world ''Dynamic'')))) = [Update]"
    using d [of "''Dynamic''"] by simp
  moreover have "capabilities (run_effects (example_world ''Remove'')
       (snd (execute_action ?self 0 (example_world ''Remove'')))) = [Delete]"
    using d [of "''Remove''"] by simp
  moreover have "fst (execute_action ?self 0 (example_world ''Replace'')) =
       Inl (NotImplementedError (Some ''Replace''))"
    "capabilities (run_effects (example_world ''Replace'')
       (snd (execute_action ?self 0 (example_world ''Replace'')))) = []"
    using d [of "''Replace''"] by simp_all
  ultimately show ?thesis
    by (simp add: example_translation example_world_simps polling_provider_def)
qed

text \<open>
  Claim C5. For a resource type that is not in the private registry,
  \<^verbatim>\<open>execute_action\<close> raises \<^verbatim>\<open>NotImplementedError\<close> and leaves the world as it was:
  no request was built (no client resolved, no token drawn) and no capability invoked.
  A \<^verbatim>\<open>deploy_loop\<close> that makes an attempt at all (\<open>max_iterations > 0\<close>) raises that
  error from its first attempt, whatever \<^verbatim>\<open>max_iterations\<close> is: the run has made no
  outside call, so it has invoked nothing and has not slept.
\<close>

theorem unregistered_type_fails:
  assumes "PRIVATE_REGISTRY w (self_resource_type self) = None"
  shows "execute_action self p w = (Inl (NotImplementedError None), w) \<and>
         (0 < max_iterations \<longrightarrow>
            deploy_loop self raw_payload max_iterations sleep_time w =
              (Inl (NotImplementedError None), snd (deepcopy raw_payload w)) \<and>
            run_effects w (snd (deepcopy raw_payload w)) = [])"
proof -
  have ex: "execute_action self q v = (Inl (NotImplementedError None), v)"
    if "PRIVATE_REGISTRY v (self_resource_type self) = None" for q and v :: "('a, 'b, 'c) world"
    using that by (simp add: execute_action_def)
  let ?p = "fst (deepcopy raw_payload w)"
  let ?c = "snd (deepcopy raw_payload w)"
  have "PRIVATE_REGISTRY ?c (self_resource_type self) = None"
    using assms by (simp add: deepcopy_def Let_def)
  then have lb: "loop_body self sleep_time ?p ?c = (Raise (NotImplementedError None), ?c)"
    by (simp add: loop_body_def ex)
  have "deploy_loop self raw_payload max_iterations sleep_time w =
          (Inl (NotImplementedError None), ?c)" if "0 < max_iterations"
  proof -
    from that obtain m where "nat max_iterations = Suc m"
      by (cases "nat max_iterations") auto
    then show ?thesis by (simp add: deploy_loop_def split_def Let_def lb)
  qed
  moreover have "run_effects w ?c = []"
    by (simp add: run_effects_def deepcopy_trace)
  ultimately show ?thesis using ex [OF assms] by simp
qed

text \<open>
  No provider is registered for \<^verbatim>\<open>Test::Unknown\<close>.
\<close>

theorem unregistered_type_fails_witness:
  "execute_action (example_executor ''Test::Unknown'') 0 (example_world ''Add'') =
     (Inl (NotImplementedError None), example_world ''Add'') \<and>
   fst (deploy_loop (example_executor ''Test::Unknown'') 0 30 0 (example_world ''Add'')) =
     Inl (NotImplementedError None) \<and>
   run_effects (example_world ''Add'')
     (snd (deploy_loop (example_executor ''Test::Unknown'') 0 30 0 (example_world ''Add''))) = []"
proof -
  have reg: "PRIVATE_REGISTRY (example_world ''Add'')
      (self_resource_type (example_executor ''Test::Unknown'')) = None"
    by (simp add: example_registry example_executor_def)
  from unregistered_type_fails [OF reg, of 0 30 0 0] show ?thesis by simp
qed

text \<open>
  Claim C6. Let the caller's payload and its callback context be objects of the store.
  After \<^verbatim>\<open>deploy_loop\<close>, whether it returned or raised, the caller's payload object is
  what it was, and so is the content of its callback context; indeed every payload object
  and every context object that was in the store before the call is unchanged. Every
  request given to a provider refers to a context object made during the call, never to
  one of the caller's.
\<close>

theorem caller_payload_unchanged:
  assumes "raw_payload < next_addr w" and "callbackContext (payloads w raw_payload) < next_addr w"
  shows "let w' = snd (deploy_loop self raw_payload max_iterations sleep_time w)
         in payloads w' raw_payload = payloads w raw_payload \<and>
            current_context raw_payload w' = current_context raw_payload w \<and>
            (\<forall>a<next_addr w. payloads w' a = payloads w a \<and> dicts w' a = dicts w a) \<and>
            list_all (\<lambda>request. next_addr w \<le> request_custom_context request)
              (requests (run_effects w w'))"
proof -
  let ?p = "fst (deepcopy raw_payload w)"
  let ?c = "snd (deepcopy raw_payload w)"
  let ?w' = "snd (deploy_loop self raw_payload max_iterations sleep_time w)"
  have w': "?w' = snd (deploy_iterations self (nat max_iterations) sleep_time ?p ?c)"
    by (simp add: deploy_loop_def split_def Let_def)
  have c: "next_addr w \<le> next_addr ?c" "next_addr w \<le> ?p"
    "next_addr w \<le> callbackContext (payloads ?c ?p)"
    "\<forall>a<next_addr w. payloads ?c a = payloads w a \<and> dicts ?c a = dicts w a"
    by (simp_all add: deepcopy_def Let_def)
  from deploy_iterations_frame [OF c(1) c(2) c(3), of self "nat max_iterations" sleep_time]
  obtain xs where fr: "\<forall>a<next_addr w. payloads ?w' a = payloads ?c a \<and> dicts ?w' a = dicts ?c a"
    and xs: "trace ?w' = trace ?c @ xs"
      "list_all (\<lambda>request. next_addr w \<le> request_custom_context request) (requests xs)"
    unfolding w' by blast
  have re: "run_effects w ?w' = xs"
    using xs by (simp add: run_effects_append deepcopy_trace)
  from fr c(4) have all: "\<forall>a<next_addr w. payloads ?w' a = payloads w a \<and> dicts ?w' a = dicts w a"
    by simp
  with assms have "payloads ?w' raw_payload = payloads w raw_payload"
    "current_context raw_payload ?w' = current_context raw_payload w"
    by (simp_all add: current_context_def)
  with all xs(2) show ?thesis unfolding Let_def re by blast
qed

text \<open>
  In the run of the first scenario the caller's payload (address 0) and its context
  (address 1) are unchanged; the three attempts were given the contexts at addresses 3, 4
  and 5.
\<close>

theorem caller_payload_unchanged_witness:
  "payloads (snd example_run) 0 = payloads (example_world ''Add'') 0 \<and>
   current_context 0 (snd example_run) = current_context 0 (example_world ''Add'') \<and>
   dicts (snd example_run) 1 = dicts (example_world ''Add'') 1 \<and>
   list_all (\<lambda>request. next_addr (example_world ''Add'') \<le> request_custom_context request)
     (requests (run_effects (example_world ''Add'') (snd example_run))) \<and>
   map request_custom_context (requests (run_effects (example_world ''Add'') (snd example_run))) =
     [3, 4, 5] \<and>
   callbackContext (payloads (example_world ''Add'') 0) = 1"
proof -
  have h1: "0 < next_addr (example_world ''Add'')"
    and h2: "callbackContext (payloads (example_world ''Add'') 0) < next_addr (example_world ''Add'')"
    and h3: "(1::nat) < next_addr (example_world ''Add'')"
    and h4: "callbackContext (payloads (example_world ''Add'') 0) = 1"
    by (simp_all add: example_world_simps example_payload_def)
  from caller_payload_unchanged [OF h1 h2, of "example_executor ''Test::Resource''" 30 0] h3
  have "payloads (snd example_run) 0 = payloads (example_world ''Add'') 0"
    "current_context 0 (snd example_run) = current_context 0 (example_world ''Add'')"
    "dicts (snd example_run) 1 = dicts (example_world ''Add'') 1"
    "list_all (\<lambda>request. next_addr (example_world ''Add'') \<le> request_custom_context request)
     (requests (run_effects (example_world ''Add'') (snd example_run)))"
    unfolding Let_def example_run_def by blast+
  with example_run_requests h4 show ?thesis by blast
qed

text \<open>
  Claim C7. The request \<^verbatim>\<open>convert_payload\<close> builds has the payload's
  \<^verbatim>\<open>resourceProperties\<close> as its \<^verbatim>\<open>desired_state\<close> and as its
  \<^verbatim>\<open>_original_payload\<close>; its \<^verbatim>\<open>custom_context\<close> is the payload's
  \<^verbatim>\<open>callbackContext\<close>, the same object with the same content. Its token is the next
  value of \<^verbatim>\<open>uuid.uuid4()\<close>, and each call draws one value: a second call gets the
  value after it. Apart from the token the request is a function of the stack name, the
  stack id and the payload: two translations of equal payloads, in any two worlds, differ
  in the token at most.
\<close>

theorem convert_payload_translation:
  fixes w :: "('a, 'b, 'c) world"
  shows "let pl = payloads w p;
       (request, w') = convert_payload sn sid p w
   in desired_state request = resourceProperties (requestData pl) \<and>
      original_payload request = resourceProperties (requestData pl) \<and>
      request_custom_context request = callbackContext pl \<and>
      dicts w' (request_custom_context request) = current_context p w \<and>
      request_token request = uuid4_values w (uuid4_calls w) \<and>
      uuid4_calls w' = Suc (uuid4_calls w) \<and>
      request_token (fst (convert_payload sn sid p w')) = uuid4_values w (Suc (uuid4_calls w)) \<and>
      (\<forall>(v :: ('a, 'd, 'f) world) q t. payloads v q = pl \<longrightarrow>
         (fst (convert_payload sn sid q v))\<lparr>request_token := t\<rparr> = request\<lparr>request_token := t\<rparr>)"
proof -
  let ?request = "fst (convert_payload sn sid p w)"
  let ?w' = "snd (convert_payload sn sid p w)"
  have "desired_state ?request = resourceProperties (requestData (payloads w p))"
    "original_payload ?request = resourceProperties (requestData (payloads w p))"
    "request_custom_context ?request = callbackContext (payloads w p)"
    "request_token ?request = uuid4_values w (uuid4_calls w)"
    by (simp_all add: convert_payload_request)
  moreover have "dicts ?w' (request_custom_context ?request) = current_context p w"
    "uuid4_calls ?w' = Suc (uuid4_calls w)"
    by (simp_all add: convert_payload_request convert_payload_world current_context_def)
  moreover have "request_token (fst (convert_payload sn sid p ?w')) =
      uuid4_values w (Suc (uuid4_calls w))"
    by (simp add: convert_payload_request convert_payload_world)
  moreover have "(fst (convert_payload sn sid q v))\<lparr>request_token := t\<rparr> =
      ?request\<lparr>request_token := t\<rparr>" if "payloads v q = payloads w p"
    for v :: "('a, 'd, 'f) world" and q t
    using that by (simp add: convert_payload_request)
  ultimately show ?thesis
    unfolding Let_def split_def by blast
qed

text \<open>
  The example payload translated in two worlds that differ in the values
  \<^verbatim>\<open>uuid.uuid4()\<close> has left.
\<close>

theorem convert_payload_translation_witness:
  "desired_state (fst (convert_payload ''stack'' ''stack-1'' 0 (example_world ''Add''))) =
     ''my-queue'' \<and>
   original_payload (fst (convert_payload ''stack'' ''stack-1'' 0 (example_world ''Add''))) =
     ''my-queue'' \<and>
   request_custom_context (fst (convert_payload ''stack'' ''stack-1'' 0 (example_world ''Add''))) =
     1 \<and>
   request_token (fst (convert_payload ''stack'' ''stack-1'' 0 (example_world ''Add''))) = ''u'' \<and>
   request_token (fst (convert_payload ''stack'' ''stack-1'' 0
     (snd (convert_payload ''stack'' ''stack-1'' 0 (example_world ''Add''))))) = ''uu'' \<and>
   (fst (convert_payload ''stack'' ''stack-1'' 7
      ((example_world ''Add'')\<lparr>uuid4_calls := 5\<rparr>)))\<lparr>request_token := ''t''\<rparr> =
   (fst (convert_payload ''stack'' ''stack-1'' 0 (example_world ''Add'')))\<lparr>request_token := ''t''\<rparr>"
proof -
  let ?w = "example_world ''Add''"
  let ?v = "(example_world ''Add'')\<lparr>uuid4_calls := 5\<rparr>"
  have same: "payloads ?v 7 = payloads ?w 0"
    by (simp add: example_world_simps)
  have vals: "resourceProperties (requestData (payloads ?w 0)) = ''my-queue''"
    "callbackContext (payloads ?w 0) = 1"
    "uuid4_values ?w (uuid4_calls ?w) = ''u''"
    "uuid4_values ?w (Suc (uuid4_calls ?w)) = ''uu''"
    by (simp_all add: example_world_simps example_payload_def numeral_2_eq_2)
  from convert_payload_translation [of ?w 0 "''stack''" "''stack-1''", unfolded Let_def split_def]
  have "desired_state (fst (convert_payload ''stack'' ''stack-1'' 0 ?w)) =
          resourceProperties (requestData (payloads ?w 0))"
    "original_payload (fst (convert_payload ''stack'' ''stack-1'' 0 ?w)) =
          resourceProperties (requestData (payloads ?w 0))"
    "request_custom_context (fst (convert_payload ''stack'' ''stack-1'' 0 ?w)) =
          callbackContext (payloads ?w 0)"
    "request_token (fst (convert_payload ''stack'' ''stack-1'' 0 ?w)) =
          uuid4_values ?w (uuid4_calls ?w)"
    "request_token (fst (convert_payload ''stack'' ''stack-1'' 0
       (snd (convert_payload ''stack'' ''stack-1'' 0 ?w)))) = uuid4_values ?w (Suc (uuid4_calls ?w))"
    "payloads ?v 7 = payloads ?w 0 \<longrightarrow>
       (fst (convert_payload ''stack'' ''stack-1'' 7 ?v))\<lparr>request_token := ''t''\<rparr> =
       (fst (convert_payload ''stack'' ''stack-1'' 0 ?w))\<lparr>request_token := ''t''\<rparr>"
    by blast+
  with same show ?thesis unfolding vals by blast
qed

text \<open>
  Claim C8. For a registered resource type and an action that is none of \<^verbatim>\<open>"Add"\<close>,
  \<^verbatim>\<open>"Dynamic"\<close>, \<^verbatim>\<open>"Modify"\<close> and \<^verbatim>\<open>"Remove"\<close>, \<^verbatim>\<open>execute_action\<close> raises
  \<^verbatim>\<open>NotImplementedError\<close> with the action as its argument in the world the
  translation and the instantiation of the provider left: the client was resolved, a
  token was drawn, the logger was fetched and the provider class was instantiated, in
  this order, and then no capability was invoked.
\<close>

theorem unsupported_action_after_translation:
  assumes "PRIVATE_REGISTRY w (self_resource_type self) = Some cls"
    and "action (payloads w p) \<notin> {''Add'', ''Dynamic'', ''Modify'', ''Remove''}"
  shows "let (r, w') = execute_action self p w
         in r = Inl (NotImplementedError (Some (action (payloads w p)))) \<and>
            run_effects w w' =
              translation_effects (payloads w p) (uuid4_values w (uuid4_calls w)) @
              [Instantiate (TYPE_name cls)] \<and>
            uuid4_calls w' = Suc (uuid4_calls w) \<and>
            w' = snd (instantiate cls
                   (snd (convert_payload (self_stack_name self) (self_stack_id self) p w))) \<and>
            requests (run_effects w w') = [] \<and> env w' = env w"
proof -
  from assms(2) have ex: "execute_action self p w =
      (Inl (NotImplementedError (Some (action (payloads w p)))), dispatch_world p cls w)"
    by (simp add: execute_action_registered [OF assms(1)] Let_def)
  have "snd (instantiate cls
          (snd (convert_payload (self_stack_name self) (self_stack_id self) p w))) =
        dispatch_world p cls w"
    by (simp add: dispatch_world_def instantiate_def log_effect_def convert_payload_world)
  moreover have "uuid4_calls (dispatch_world p cls w) = Suc (uuid4_calls w)"
    "env (dispatch_world p cls w) = env w"
    by (simp_all add: dispatch_world_def)
  moreover have "requests (run_effects w (dispatch_world p cls w)) = []"
    by (simp add: dispatch_world_effects requests_append translation_effects_def)
  ultimately show ?thesis
    unfolding ex prod.case Let_def by (simp add: dispatch_world_effects)
qed

text \<open>
  The action \<^verbatim>\<open>"Replace"\<close> on the example payload.
\<close>

theorem unsupported_action_after_translation_witness:
  "fst (execute_action (example_executor ''Test::Resource'') 0 (example_world ''Replace'')) =
     Inl (NotImplementedError (Some ''Replace'')) \<and>
   run_effects (example_world ''Replace'')
     (snd (execute_action (example_executor ''Test::Resource'') 0 (example_world ''Replace''))) =
     [ConnectTo ''key'' ''session'' ''secret'' ''eu-west-1'', Uuid4 ''u'', GetLogger ''abc'',
      Instantiate (Some ''Test::Resource'')] \<and>
   uuid4_calls (snd (execute_action (example_executor ''Test::Resource'') 0
     (example_world ''Replace''))) = 1"
proof -
  let ?self = "example_executor ''Test::Resource''"
  have reg: "PRIVATE_REGISTRY (example_world ''Replace'') (self_resource_type ?self) =
      Some polling_provider"
    by (simp add: example_registry example_executor_def)
  have act: "action (payloads (example_world ''Replace'') 0) \<notin>
      {''Add'', ''Dynamic'', ''Modify'', ''Remove''}"
    by (simp add: example_world_simps example_payload_def)
  have te: "translation_effects (payloads (example_world ''Replace'') 0)
       (uuid4_values (example_world ''Replace'') (uuid4_calls (example_world ''Replace''))) @
       [Instantiate (TYPE_name polling_provider)] =
     ([ConnectTo ''key'' ''session'' ''secret'' ''eu-west-1'', Uuid4 ''u'', GetLogger ''abc'',
      Instantiate (Some ''Test::Resource'')] :: (string, nat) effect list)"
    by (simp add: translation_effects_def example_world_simps example_payload_def
        polling_provider_def)
  from unsupported_action_after_translation [OF reg act, unfolded split_def Let_def te]
  have "fst (execute_action ?self 0 (example_world ''Replace'')) =
      Inl (NotImplementedError (Some (action (payloads (example_world ''Replace'') 0))))"
    "run_effects (example_world ''Replace'')
       (snd (execute_action ?self 0 (example_world ''Replace''))) =
     [ConnectTo ''key'' ''session'' ''secret'' ''eu-west-1'', Uuid4 ''u'', GetLogger ''abc'',
      Instantiate (Some ''Test::Resource'')]"
    "uuid4_calls (snd (execute_action ?self 0 (example_world ''Replace''))) =
      Suc (uuid4_calls (example_world ''Replace''))"
    by blast+
  then show ?thesis
    by (simp add: example_world_simps example_payload_def)
qed

text \<open>
  Claim C9. The request \<^verbatim>\<open>convert_payload\<close> builds has the account id
  \<^verbatim>\<open>"000000000000"\<close> and the region name \<^verbatim>\<open>"us-east-1"\<close>, whatever the payload's
  \<^verbatim>\<open>awsAccountId\<close> and \<^verbatim>\<open>region\<close> are. The payload's region is an argument of the
  client factory: with any other account id \<open>a\<close> and region \<open>r\<close> in the payload, the
  request is the same but for the client factory, which is then built for \<open>r\<close>.
\<close>

theorem convert_payload_account_and_region:
  "let pl = payloads w p;
       creds = callerCredentials (requestData pl);
       request = fst (convert_payload sn sid p w)
   in account_id request = ''000000000000'' \<and>
      region_name request = ''us-east-1'' \<and>
      aws_client_factory request =
        connect_to (accessKeyId creds) (sessionToken creds) (secretAccessKey creds) (region pl) \<and>
      fst (convert_payload sn sid p
             (w\<lparr>payloads := (payloads w)(p := pl\<lparr>awsAccountId := a, region := r\<rparr>)\<rparr>)) =
        request\<lparr>aws_client_factory :=
          connect_to (accessKeyId creds) (sessionToken creds) (secretAccessKey creds) r\<rparr>"
  by (simp add: Let_def convert_payload_request)

text \<open>
  Claim C10. When \<^verbatim>\<open>max_iterations\<close> is zero or negative, \<^verbatim>\<open>deploy_loop\<close> raises
  \<^verbatim>\<open>TimeoutError\<close> in the world the copy of the payload left: the run has made no
  outside call (no invocation, no sleep), the providers' world is what it was, and the
  callback context of the copy is the content of the caller's, with nothing merged.
\<close>

theorem deploy_loop_no_iterations:
  assumes "max_iterations \<le> 0"
  shows "deploy_loop self raw_payload max_iterations sleep_time w =
           (Inl (TimeoutError ''Could not perform deploy loop action''),
            snd (deepcopy raw_payload w)) \<and>
         run_effects w (snd (deepcopy raw_payload w)) = [] \<and>
         env (snd (deepcopy raw_payload w)) = env w \<and>
         current_context (fst (deepcopy raw_payload w)) (snd (deepcopy raw_payload w)) =
           current_context raw_payload w"
proof -
  from assms have "nat max_iterations = 0" by simp
  then have "deploy_loop self raw_payload max_iterations sleep_time w =
           (Inl (TimeoutError ''Could not perform deploy loop action''),
            snd (deepcopy raw_payload w))"
    by (simp add: deploy_loop_def split_def Let_def)
  moreover have "run_effects w (snd (deepcopy raw_payload w)) = []"
    by (simp add: run_effects_def deepcopy_trace)
  moreover have "env (snd (deepcopy raw_payload w)) = env w"
    by (simp add: deepcopy_def Let_def)
  ultimately show ?thesis by (simp add: deepcopy_context)
qed

text \<open>
  With \<^verbatim>\<open>max_iterations\<close> 0 and -3.
\<close>

theorem deploy_loop_no_iterations_witness:
  "fst (deploy_loop (example_executor ''Test::Resource'') 0 0 5 (example_world ''Add'')) =
     Inl (TimeoutError ''Could not perform deploy loop action'') \<and>
   run_effects (example_world ''Add'')
     (snd (deploy_loop (example_executor ''Test::Resource'') 0 0 5 (example_world ''Add''))) = [] \<and>
   fst (deploy_loop (example_executor ''Test::Resource'') 0 (- 3) 5 (example_world ''Add'')) =
     Inl (TimeoutError ''Could not perform deploy loop action'') \<and>
   run_effects (example_world ''Add'')
     (snd (deploy_loop (example_executor ''Test::Resource'') 0 (- 3) 5 (example_world ''Add''))) = []"
proof -
  have "(0::int) \<le> 0" and "(- 3::int) \<le> 0" by simp_all
  from deploy_loop_no_iterations [OF this(1), of "example_executor ''Test::Resource''" 0 5
      "example_world ''Add''"]
    deploy_loop_no_iterations [OF this(2), of "example_executor ''Test::Resource''" 0 5
      "example_world ''Add''"]
  show ?thesis by simp
qed

end
